theory Spec2Isabelle
  imports Main "HOL-Library.Word"
begin

unbundle bit_operations_syntax

section \<open>Strings, runes and UTF-8\<close>

text \<open>
  A Go string is a sequence of bytes: it is modelled as a \<open>string\<close> (a list of 8-bit
  characters). A rune is a Unicode code point, modelled as a natural number. Where the
  program reads a string rune by rune (the scanner of \<open>Compile\<close>, the regular-expression
  engine) the bytes are decoded as UTF-8, a byte that starts no valid encoding giving the
  replacement rune U+FFFD and a width of one byte, as \<open>utf8.DecodeRune\<close> does.
\<close>

type_synonym rune = nat

definition RuneError :: rune where
  "RuneError = 65533"

definition RuneSelf :: rune where
  "RuneSelf = 128"

definition BOM :: rune where
  "BOM = 65279"

definition cont_byte :: "nat \<Rightarrow> bool" where
  "cont_byte b = (128 \<le> b \<and> b \<le> 191)"

text \<open>The second byte of a multi-byte encoding has a range that depends on the first.\<close>

definition second_ok :: "nat \<Rightarrow> nat \<Rightarrow> bool" where
  "second_ok b0 b1 =
     (if b0 = 224 then 160 \<le> b1 \<and> b1 \<le> 191
      else if b0 = 237 then 128 \<le> b1 \<and> b1 \<le> 159
      else if b0 = 240 then 144 \<le> b1 \<and> b1 \<le> 191
      else if b0 = 244 then 128 \<le> b1 \<and> b1 \<le> 143
      else cont_byte b1)"

fun DecodeRune :: "nat list \<Rightarrow> rune \<times> nat" where
  "DecodeRune [] = (RuneError, 0)"
| "DecodeRune (b0 # bs) =
     (if b0 < 128 then (b0, 1)
      else if 194 \<le> b0 \<and> b0 \<le> 223 then
        (case bs of
           b1 # _ \<Rightarrow> if cont_byte b1 then ((b0 mod 32) * 64 + b1 mod 64, 2) else (RuneError, 1)
         | _ \<Rightarrow> (RuneError, 1))
      else if 224 \<le> b0 \<and> b0 \<le> 239 then
        (case bs of
           b1 # b2 # _ \<Rightarrow>
             if second_ok b0 b1 \<and> cont_byte b2
             then ((b0 mod 16) * 4096 + (b1 mod 64) * 64 + b2 mod 64, 3)
             else (RuneError, 1)
         | _ \<Rightarrow> (RuneError, 1))
      else if 240 \<le> b0 \<and> b0 \<le> 244 then
        (case bs of
           b1 # b2 # b3 # _ \<Rightarrow>
             if second_ok b0 b1 \<and> cont_byte b2 \<and> cont_byte b3
             then ((b0 mod 8) * 262144 + (b1 mod 64) * 4096 + (b2 mod 64) * 64 + b3 mod 64, 4)
             else (RuneError, 1)
         | _ \<Rightarrow> (RuneError, 1))
      else (RuneError, 1))"

fun decode_bytes :: "nat list \<Rightarrow> rune list" where
  "decode_bytes [] = []"
| "decode_bytes (b # bs) =
     (case DecodeRune (b # bs) of (r, w) \<Rightarrow> r # decode_bytes (drop (w - 1) bs))"

definition runes :: "string \<Rightarrow> rune list" where
  "runes s = decode_bytes (map of_char s)"

text \<open>The runes of an ASCII literal of the source.\<close>

definition lit :: "string \<Rightarrow> rune list" where
  "lit s = map of_char s"

subsection \<open>The functions of package strings that the program calls\<close>

definition HasPrefix :: "string \<Rightarrow> string \<Rightarrow> bool" where
  "HasPrefix s pre = (length pre \<le> length s \<and> take (length pre) s = pre)"

definition HasSuffix :: "string \<Rightarrow> string \<Rightarrow> bool" where
  "HasSuffix s suf = (length suf \<le> length s \<and> drop (length s - length suf) s = suf)"

text \<open>
  \<open>strings.Split\<close> is only called with the one-byte path separator: the pieces between
  the separators, one more than there are separators.
\<close>

fun Split :: "string \<Rightarrow> char \<Rightarrow> string list" where
  "Split [] sep = [[]]"
| "Split (c # cs) sep =
     (if c = sep then [] # Split cs sep
      else (case Split cs sep of
              [] \<Rightarrow> [[c]]
            | piece # pieces \<Rightarrow> (c # piece) # pieces))"

fun Join :: "string list \<Rightarrow> char \<Rightarrow> string" where
  "Join [] sep = []"
| "Join [e] sep = e"
| "Join (e # es) sep = e @ sep # Join es sep"

section \<open>Package path/filepath on a Unix build\<close>

text \<open>
  The embedding fixes the build for which \<open>os.PathSeparator\<close> is the slash. There
  \<open>filepath.FromSlash\<close> returns its argument, a path has no volume name, and
  \<open>filepath.Clean\<close> and \<open>filepath.Dir\<close> are the lexical functions below: Clean reads the
  path one element at a time, drops empty and \<open>.\<close> elements, lets a \<open>..\<close> element remove
  the element written before it (down to the index \<open>dotdot\<close>, the leading slash or a
  leading run of \<open>..\<close> elements), and turns an empty result into \<open>.\<close>.
\<close>

definition PathSeparator :: char where
  "PathSeparator = CHR ''/''"

definition FromSlash :: "string \<Rightarrow> string" where
  "FromSlash path = path"

fun backtrack :: "string \<Rightarrow> nat \<Rightarrow> nat \<Rightarrow> nat" where
  "backtrack out dotdot 0 = 0"
| "backtrack out dotdot (Suc w) =
     (if Suc w > dotdot \<and> out ! (Suc w) \<noteq> PathSeparator
      then backtrack out dotdot w else Suc w)"

definition clean_elem :: "bool \<Rightarrow> string \<Rightarrow> string \<times> nat \<Rightarrow> string \<times> nat" where
  "clean_elem rooted elem st =
     (case st of (out, dotdot) \<Rightarrow>
        if elem = [] \<or> elem = ''.'' then (out, dotdot)
        else if elem = ''..'' then
          (if length out > dotdot
           then (take (backtrack out dotdot (length out - 1)) out, dotdot)
           else if \<not> rooted then
             (let out' = (if length out > 0 then out @ [PathSeparator] else out) @ ''..''
              in (out', length out'))
           else (out, dotdot))
        else
          ((if (rooted \<and> length out \<noteq> 1) \<or> (\<not> rooted \<and> length out \<noteq> 0)
            then out @ [PathSeparator] else out) @ elem, dotdot))"

definition Clean :: "string \<Rightarrow> string" where
  "Clean path =
     (if path = [] then ''.''
      else
        (let rooted = (hd path = PathSeparator);
             out = fst (fold (clean_elem rooted) (Split path PathSeparator)
                          (if rooted then ([PathSeparator], 1) else ([], 0)))
         in if out = [] then ''.'' else FromSlash out))"

text \<open>\<open>filepath.Dir\<close>: everything up to the last separator, cleaned.\<close>

definition Dir :: "string \<Rightarrow> string" where
  "Dir path = Clean (rev (dropWhile (\<lambda>c. c \<noteq> PathSeparator) (rev path)))"

section \<open>Package regexp, on the expressions Compile writes\<close>

text \<open>
  \<open>Compile\<close> hands the expression it has written to \<open>regexp.Compile\<close> and \<open>Pattern.Match\<close>
  asks \<open>MatchString\<close> of the result. The library is modelled on the syntax that
  \<open>Compile\<close> can emit: literals, escaped punctuation, the dot (any rune but the newline),
  bracket classes with ranges and negation, the anchors \<open>^\<close> and \<open>$\<close> (begin and end of
  the text: no multi-line flag), groups, alternation and the postfix operators. An
  expression outside this fragment (a backslash before a letter or a digit, a named
  class, an unescaped brace, a lazy or stacked repetition) is \<open>Unsupported\<close>: its
  outcome is left to a parameter of the model. The size limits of the library are not
  modelled. A compiled expression is represented by its \<open>MatchString\<close> predicate;
  \<open>MatchString\<close> reports whether the expression matches some substring of the text.
\<close>

datatype regex =
    Fail | Eps | BeginText | EndText
  | Lit rune | AnyNotNL | Class bool "(rune \<times> rune) list"
  | Cat regex regex | Alt regex regex | Star regex | Opt regex

datatype 'a parsed = Parsed 'a | Bad string | Unsupported

abbreviation (input) rn :: "char \<Rightarrow> rune" where
  "rn c \<equiv> of_char c"

definition isalnum :: "rune \<Rightarrow> bool" where
  "isalnum c = ((rn CHR ''0'' \<le> c \<and> c \<le> rn CHR ''9'') \<or> (rn CHR ''A'' \<le> c \<and> c \<le> rn CHR ''Z'')
                \<or> (rn CHR ''a'' \<le> c \<and> c \<le> rn CHR ''z''))"

text \<open>The rune after a backslash: punctuation stands for itself.\<close>

fun escape :: "rune list \<Rightarrow> (rune \<times> rune list) parsed" where
  "escape [] = Bad ''trailing backslash at end of expression''"
| "escape (d # t) =
     (if d < RuneSelf \<and> \<not> isalnum d then Parsed (d, t)
      else if d < RuneSelf then Unsupported
      else Bad ''invalid escape sequence'')"

fun class_char :: "rune list \<Rightarrow> (rune \<times> rune list) parsed" where
  "class_char [] = Bad ''missing closing ]''"
| "class_char (c # t) = (if c = rn CHR 0x5C then escape t else Parsed (c, t))"

function class_items :: "bool \<Rightarrow> (rune \<times> rune) list \<Rightarrow> rune list \<Rightarrow> ((rune \<times> rune) list \<times> rune list) parsed" where
  "class_items first acc [] = Bad ''missing closing ]''"
| "class_items first acc (c # t) =
     (if c = rn CHR '']'' \<and> \<not> first then Parsed (acc, t)
      else if c = rn CHR ''['' \<and> length t > 1 \<and> hd t = rn CHR '':'' then Unsupported
      else
        (case class_char (c # t) of
           Bad e \<Rightarrow> Bad e
         | Unsupported \<Rightarrow> Unsupported
         | Parsed (lo, t1) \<Rightarrow>
             if length t1 \<ge> 2 \<and> hd t1 = rn CHR ''-'' \<and> hd (tl t1) \<noteq> rn CHR '']'' then
               (case class_char (tl t1) of
                  Bad e \<Rightarrow> Bad e
                | Unsupported \<Rightarrow> Unsupported
                | Parsed (hi, t2) \<Rightarrow>
                    if hi < lo then Bad ''invalid character class range''
                    else class_items False (acc @ [(lo, hi)]) t2)
             else class_items False (acc @ [(lo, lo)]) t1))"
  by pat_completeness auto
termination
proof -
  have escape_shorter: "length t < length s" if "escape s = Parsed (r, t)" for s r t
    using that by (cases s) (auto split: if_splits)
  have class_char_shorter: "length t < length s" if "class_char s = Parsed (r, t)" for s r t
    using that by (cases s) (auto split: if_splits dest: escape_shorter)
  show ?thesis
  proof (relation "measure (\<lambda>(first, acc, s). length s)")
    show "wf (measure (\<lambda>(first, acc, s). length s))" by simp
  next
    fix first :: bool and acc :: "(rune \<times> rune) list" and c :: rune and t x2 lo t1 x2a hi t2
    assume "class_char (c # t) = Parsed x2" "(lo, t1) = x2"
      "class_char (tl t1) = Parsed x2a" "(hi, t2) = x2a"
    then have "length t1 < length (c # t)" "length t2 < length (tl t1)"
      using class_char_shorter by metis+
    then show "((False, acc @ [(lo, hi)], t2), (first, acc, c # t))
                 \<in> measure (\<lambda>(first, acc, s). length s)"
      by simp
  next
    fix first :: bool and acc :: "(rune \<times> rune) list" and c :: rune and t x2 lo t1
    assume "class_char (c # t) = Parsed x2" "(lo, t1) = x2"
    then have "length t1 < length (c # t)"
      using class_char_shorter by metis
    then show "((False, acc @ [(lo, lo)], t1), (first, acc, c # t))
                 \<in> measure (\<lambda>(first, acc, s). length s)"
      by simp
  qed
qed

text \<open>The text after an opening bracket: an optional \<open>^\<close>, then the items up to \<open>]\<close>.\<close>

definition parse_class :: "rune list \<Rightarrow> (regex \<times> rune list) parsed" where
  "parse_class t =
     (let neg = (t \<noteq> [] \<and> hd t = rn CHR ''^'');
          t' = (if neg then tl t else t)
      in case class_items True [] t' of
           Bad e \<Rightarrow> Bad e
         | Unsupported \<Rightarrow> Unsupported
         | Parsed (rs, rest) \<Rightarrow> Parsed (Class neg rs, rest))"

text \<open>
  The parser keeps, for the group being read, the alternatives already closed by a bar
  and the atoms of the concatenation being read, and a stack of these for the enclosing
  groups. A postfix operator applies to the last atom; \<open>rep\<close> records that the last atom
  already carries one.
\<close>

type_synonym frame = "regex list \<times> regex list"

definition close_frame :: "frame \<Rightarrow> regex" where
  "close_frame fr = (case fr of (alts, atoms) \<Rightarrow> foldr Alt alts (foldr Cat atoms Eps))"

definition postfix :: "rune \<Rightarrow> regex \<Rightarrow> regex" where
  "postfix c r =
     (if c = rn CHR ''*'' then Star r
      else if c = rn CHR ''+'' then Cat r (Star r)
      else Opt r)"

definition atom_of :: "rune \<Rightarrow> regex" where
  "atom_of c =
     (if c = rn CHR ''^'' then BeginText
      else if c = rn CHR ''$'' then EndText
      else if c = rn CHR ''.'' then AnyNotNL
      else Lit c)"

function parse_re :: "frame list \<Rightarrow> frame \<Rightarrow> bool \<Rightarrow> rune list \<Rightarrow> regex parsed" where
  "parse_re stack fr rep [] =
     (if stack = [] then Parsed (close_frame fr) else Bad ''missing closing )'')"
| "parse_re stack fr rep (c # t) =
     (if c = rn CHR ''('' then
        (if t \<noteq> [] \<and> hd t = rn CHR ''?'' then Unsupported
         else parse_re (fr # stack) ([], []) False t)
      else if c = rn CHR '')'' then
        (case stack of
           [] \<Rightarrow> Bad ''unexpected )''
         | (palts, patoms) # stack' \<Rightarrow>
             parse_re stack' (palts, patoms @ [close_frame fr]) False t)
      else if c = rn CHR ''|'' then
        parse_re stack (fst fr @ [foldr Cat (snd fr) Eps], []) False t
      else if c = rn CHR ''*'' \<or> c = rn CHR ''+'' \<or> c = rn CHR ''?'' then
        (if rep \<or> (t \<noteq> [] \<and> hd t = rn CHR ''?'') then Unsupported
         else if snd fr = [] then Bad ''missing argument to repetition operator''
         else parse_re stack (fst fr, butlast (snd fr) @ [postfix c (last (snd fr))]) True t)
      else if c = rn CHR ''{'' then Unsupported
      else if c = rn CHR ''['' then
        (case parse_class t of
           Bad e \<Rightarrow> Bad e
         | Unsupported \<Rightarrow> Unsupported
         | Parsed (cls, t') \<Rightarrow> parse_re stack (fst fr, snd fr @ [cls]) False t')
      else if c = rn CHR 0x5C then
        (case escape t of
           Bad e \<Rightarrow> Bad e
         | Unsupported \<Rightarrow> Unsupported
         | Parsed (d, t') \<Rightarrow> parse_re stack (fst fr, snd fr @ [Lit d]) False t')
      else parse_re stack (fst fr, snd fr @ [atom_of c]) False t)"
  by pat_completeness auto

termination parse_re
proof -
  have escape_shorter: "length t < length s" if "escape s = Parsed (r, t)" for s r t
    using that by (cases s) (auto split: if_splits)
  have class_char_shorter: "length t < length s" if "class_char s = Parsed (r, t)" for s r t
    using that by (cases s) (auto split: if_splits dest: escape_shorter)
  have class_items_shorter: "length t < length s"
    if "class_items first acc s = Parsed (rs, t)" for first acc s rs t
    using that
  proof (induction first acc s rule: class_items.induct)
    case (1 first acc)
    then show ?case by simp
  next
    case (2 first acc c t0)
    show ?case
    proof (cases "c = rn CHR '']'' \<and> \<not> first")
      case True
      with "2.prems" show ?thesis by auto
    next
      case False
      note nf = this
      show ?thesis
      proof (cases "c = rn CHR ''['' \<and> length t0 > 1 \<and> hd t0 = rn CHR '':''")
        case True
        with nf "2.prems" show ?thesis by simp
      next
        case False
        note nn = this
        from nf nn "2.prems" obtain lo t1 where cc: "class_char (c # t0) = Parsed (lo, t1)"
          by (auto split: parsed.splits)
        have l1: "length t1 < length (c # t0)" using class_char_shorter [OF cc] .
        show ?thesis
        proof (cases "length t1 \<ge> 2 \<and> hd t1 = rn CHR ''-'' \<and> hd (tl t1) \<noteq> rn CHR '']''")
          case True
          with nf nn cc "2.prems" obtain hi t2 where
            c2: "class_char (tl t1) = Parsed (hi, t2)" and hl: "\<not> hi < lo"
            and rest: "class_items False (acc @ [(lo, hi)]) t2 = Parsed (rs, t)"
            by (auto split: parsed.splits if_splits)
          have "length t2 < length (tl t1)" using class_char_shorter [OF c2] .
          moreover have "length t < length t2"
            using "2.IH"(1) [OF nf nn cc refl True c2 refl hl rest] .
          ultimately show ?thesis using l1 by simp
        next
          case False
          with nf nn cc "2.prems" have
            rest: "class_items False (acc @ [(lo, lo)]) t1 = Parsed (rs, t)"
            by (auto split: parsed.splits if_splits)
          have "length t < length t1"
            using "2.IH"(2) [OF nf nn cc refl False rest] .
          then show ?thesis using l1 by simp
        qed
      qed
    qed
  qed
  have parse_class_shorter: "length t \<le> length s" if "parse_class s = Parsed (r, t)" for s r t
    using that unfolding parse_class_def Let_def
    by (auto split: parsed.splits if_splits dest!: class_items_shorter)
  show ?thesis
  proof (relation "measure (\<lambda>(stack, fr, rep, s). length s)")
    show "wf (measure (\<lambda>(stack, fr, rep, s). length s))" by simp
  qed (auto dest: parse_class_shorter escape_shorter)
qed

subsection \<open>Matching\<close>

text \<open>
  Matching is by derivatives. \<open>nullable b e r\<close>: the expression matches the empty string
  at a position that is the beginning of the text (\<open>b\<close>) or its end (\<open>e\<close>);
  \<open>deriv b c r\<close>: what remains to be matched after the rune \<open>c\<close>, read at a position
  that is the beginning of the text when \<open>b\<close> holds.
\<close>

fun in_ranges :: "rune \<Rightarrow> (rune \<times> rune) list \<Rightarrow> bool" where
  "in_ranges c [] = False"
| "in_ranges c ((lo, hi) # rs) = ((lo \<le> c \<and> c \<le> hi) \<or> in_ranges c rs)"

fun nullable :: "bool \<Rightarrow> bool \<Rightarrow> regex \<Rightarrow> bool" where
  "nullable b e Fail = False"
| "nullable b e Eps = True"
| "nullable b e BeginText = b"
| "nullable b e EndText = e"
| "nullable b e (Lit c) = False"
| "nullable b e AnyNotNL = False"
| "nullable b e (Class neg rs) = False"
| "nullable b e (Cat r s) = (nullable b e r \<and> nullable b e s)"
| "nullable b e (Alt r s) = (nullable b e r \<or> nullable b e s)"
| "nullable b e (Star r) = True"
| "nullable b e (Opt r) = True"

definition cat :: "regex \<Rightarrow> regex \<Rightarrow> regex" where
  "cat r s = (if r = Fail then Fail else if r = Eps then s else Cat r s)"

definition alt :: "regex \<Rightarrow> regex \<Rightarrow> regex" where
  "alt r s = (if r = Fail then s else if s = Fail then r else Alt r s)"

fun deriv :: "bool \<Rightarrow> rune \<Rightarrow> regex \<Rightarrow> regex" where
  "deriv b c (Lit d) = (if c = d then Eps else Fail)"
| "deriv b c AnyNotNL = (if c \<noteq> 10 then Eps else Fail)"
| "deriv b c (Class neg rs) = (if in_ranges c rs \<noteq> neg then Eps else Fail)"
| "deriv b c (Cat r s) =
     alt (cat (deriv b c r) s) (if nullable b False r then deriv b c s else Fail)"
| "deriv b c (Alt r s) = alt (deriv b c r) (deriv b c s)"
| "deriv b c (Star r) = cat (deriv b c r) (Star r)"
| "deriv b c (Opt r) = deriv b c r"
| "deriv b c r = Fail"

text \<open>Does the expression match a prefix of the text, read from this position?\<close>

fun match_here :: "bool \<Rightarrow> regex \<Rightarrow> rune list \<Rightarrow> bool" where
  "match_here b r [] = nullable b True r"
| "match_here b r (c # cs) = (nullable b False r \<or> match_here False (deriv b c r) cs)"

text \<open>Does it match from this position or from a later one?\<close>

fun search :: "bool \<Rightarrow> regex \<Rightarrow> rune list \<Rightarrow> bool" where
  "search b r [] = match_here b r []"
| "search b r (c # cs) = (match_here b r (c # cs) \<or> search False r cs)"

type_synonym Regexp = "string \<Rightarrow> bool"

definition MatchString :: "regex \<Rightarrow> Regexp" where
  "MatchString r s = search True r (runes s)"

datatype error =
    ErrIllegalExclusion
  | ErrWrongParentMatched
  | ErrRegexp string
  | PanicIndexOutOfRange
  | PanicNilDereference

text \<open>
  \<open>regexp.Compile\<close> on the runes of an expression. \<open>other\<close> stands for what the
  library does with an expression outside the modelled fragment.
\<close>

definition regexp_Compile :: "(rune list \<Rightarrow> error + Regexp) \<Rightarrow> rune list \<Rightarrow> error + Regexp" where
  "regexp_Compile other expr =
     (case parse_re [] ([], []) False expr of
        Parsed r \<Rightarrow> Inr (MatchString r)
      | Bad e \<Rightarrow> Inl (ErrRegexp e)
      | Unsupported \<Rightarrow> other expr)"

section \<open>The pattern compiler\<close>

text \<open>
  \<open>escapeBytes\<close> is an array of eight bytes, filled by \<open>init\<close>; the constant \<open>1\<close> of
  \<open>1 << (b / 8)\<close> takes the type of the array element, so the shift is a shift of a
  byte and a shift by eight or more gives zero.
\<close>

definition escapeBytes :: "8 word list" where
  "escapeBytes =
     fold (\<lambda>b eb. eb[b mod 8 := (eb ! (b mod 8)) OR push_bit (b div 8) 1])
       (map of_char ''.+()|{}$'') (replicate 8 0)"

definition shouldEscape :: "rune \<Rightarrow> bool" where
  "shouldEscape b = (b < RuneSelf \<and> (escapeBytes ! (b mod 8)) AND push_bit (b div 8) 1 \<noteq> 0)"

text \<open>
  The scanner of package text/scanner returns the runes of the pattern one by one, an
  invalid byte as U+FFFD. Its \<open>Peek\<close>, when it reads the very first character and finds
  the byte-order mark U+FEFF, reads the next one in its place: a mark at the start of
  the pattern is skipped. The loop of \<open>Compile\<close> begins with a \<open>Peek\<close>.
\<close>

definition scan_Init :: "string \<Rightarrow> rune list" where
  "scan_Init pattern =
     (let rs = runes pattern in if rs \<noteq> [] \<and> hd rs = BOM then tl rs else rs)"

datatype MatchType = UnknownMatch | ExactMatch | PrefixMatch | SuffixMatch | RegexpMatch

definition pathSeparator :: "rune list" where
  "pathSeparator = [rn PathSeparator]"

definition escapedPathSeparator :: "rune list" where
  "escapedPathSeparator =
     (if pathSeparator = [rn CHR 0x5C] then pathSeparator @ [rn CHR 0x5C] else pathSeparator)"

text \<open>
  The loop of \<open>Compile\<close>: the runes still to be read, the counter \<open>i\<close>, the expression
  written so far and the running classification.
\<close>

function compile_loop :: "rune list \<Rightarrow> nat \<Rightarrow> rune list \<Rightarrow> MatchType \<Rightarrow> rune list \<times> MatchType" where
  "compile_loop [] i regStr matchType = (regStr, matchType)"
| "compile_loop (ch # rest) i regStr matchType =
     (if ch = rn CHR ''*'' then
        (if rest \<noteq> [] \<and> hd rest = rn CHR ''*'' then
           (let rest1 = tl rest;
                rest2 = (if rest1 \<noteq> [] \<and> [hd rest1] = pathSeparator then tl rest1 else rest1);
                st = (if rest2 = [] then
                        (if matchType = ExactMatch then (regStr, PrefixMatch)
                         else (regStr @ lit ''.*'', RegexpMatch))
                      else (regStr @ lit ''(.*'' @ escapedPathSeparator @ lit '')?'', RegexpMatch))
            in compile_loop rest2 (i + 1) (fst st) (if i = 0 then SuffixMatch else snd st))
         else
           compile_loop rest (i + 1) (regStr @ lit ''[^'' @ escapedPathSeparator @ lit '']*'') RegexpMatch)
      else if ch = rn CHR ''?'' then
        compile_loop rest (i + 1) (regStr @ lit ''[^'' @ escapedPathSeparator @ lit '']'') RegexpMatch
      else if shouldEscape ch then
        compile_loop rest (i + 1) (regStr @ [rn CHR 0x5C, ch]) matchType
      else if ch = rn CHR 0x5C then
        (if pathSeparator = [rn CHR 0x5C] then
           compile_loop rest (i + 1) (regStr @ escapedPathSeparator) matchType
         else if rest \<noteq> [] then
           compile_loop (tl rest) (i + 1) (regStr @ [rn CHR 0x5C, hd rest]) RegexpMatch
         else
           compile_loop rest (i + 1) (regStr @ [rn CHR 0x5C]) matchType)
      else if ch = rn CHR ''['' \<or> ch = rn CHR '']'' then
        compile_loop rest (i + 1) (regStr @ [ch]) RegexpMatch
      else
        compile_loop rest (i + 1) (regStr @ [ch]) matchType)"
  by pat_completeness auto
termination
  by (relation "measure (\<lambda>(rs, i, regStr, matchType). length rs)") auto

definition Compile :: "(rune list \<Rightarrow> error + Regexp) \<Rightarrow> string \<Rightarrow> MatchType \<times> Regexp option \<times> error option" where
  "Compile other pattern =
     (case compile_loop (scan_Init pattern) 0 (lit ''^'') ExactMatch of
        (regStr, matchType) \<Rightarrow>
          if matchType \<noteq> RegexpMatch then (matchType, None, None)
          else
            (case regexp_Compile other (regStr @ lit ''$'') of
               Inl err \<Rightarrow> (UnknownMatch, None, Some err)
             | Inr re \<Rightarrow> (matchType, Some re, None)))"

record Pattern =
  MatchType :: MatchType
  CleanedPattern :: string
  Dirs :: "string list"
  Regexp :: "Regexp option"
  Exclusion :: bool

text \<open>\<open>NewPattern\<close> reads \<open>pattern[0]\<close>: on the empty string it panics.\<close>

definition NewPattern :: "(rune list \<Rightarrow> error + Regexp) \<Rightarrow> string \<Rightarrow> error + Pattern" where
  "NewPattern other pattern0 =
     (if pattern0 = [] then Inl PanicIndexOutOfRange
      else if hd pattern0 = CHR ''!'' \<and> length pattern0 = 1 then Inl ErrIllegalExclusion
      else
        (let exclusion = (hd pattern0 = CHR ''!'');
             pattern = (if exclusion then tl pattern0 else pattern0)
         in case Compile other pattern of
              (matchType, regexp, Some err) \<Rightarrow> Inl err
            | (matchType, regexp, None) \<Rightarrow>
                Inr \<lparr>MatchType = matchType, CleanedPattern = pattern,
                     Dirs = Split pattern PathSeparator, Regexp = regexp,
                     Exclusion = exclusion\<rparr>))"

text \<open>
  \<open>Pattern.Match\<close>. A slice expression out of range and a call on a nil expression
  panic; the panic is a result of the model.
\<close>

definition Match :: "Pattern \<Rightarrow> string \<Rightarrow> error + bool" where
  "Match p path =
     (case MatchType p of
        ExactMatch \<Rightarrow> Inr (path = CleanedPattern p)
      | PrefixMatch \<Rightarrow>
          if length (CleanedPattern p) < 2 then Inl PanicIndexOutOfRange
          else Inr (HasPrefix path (take (length (CleanedPattern p) - 2) (CleanedPattern p)))
      | SuffixMatch \<Rightarrow>
          if length (CleanedPattern p) < 2 then Inl PanicIndexOutOfRange
          else
            (let suffix = drop 2 (CleanedPattern p)
             in if HasSuffix path suffix then Inr True
                else if suffix = [] then Inl PanicIndexOutOfRange
                else Inr (hd suffix = PathSeparator \<and> path = tl suffix))
      | RegexpMatch \<Rightarrow>
          (case Regexp p of None \<Rightarrow> Inl PanicNilDereference | Some re \<Rightarrow> Inr (re path))
      | UnknownMatch \<Rightarrow> Inr False)"

section \<open>The rule-set matchers\<close>

text \<open>
  The scan over the parent directories, shared by the two matchers: the rule is tried on
  the first \<open>i + 1\<close> directories joined, for \<open>i\<close> from zero, and the scan stops at the
  first match. \<open>n\<close> counts the directories still to try.
\<close>

fun scanParents :: "Pattern \<Rightarrow> string list \<Rightarrow> nat \<Rightarrow> nat \<Rightarrow> error + bool" where
  "scanParents pattern parentPathDirs i 0 = Inr False"
| "scanParents pattern parentPathDirs i (Suc n) =
     (case Match pattern (Join (take (i + 1) parentPathDirs) PathSeparator) of
        Inl e \<Rightarrow> Inl e
      | Inr match \<Rightarrow>
          if match then Inr True else scanParents pattern parentPathDirs (i + 1) n)"

text \<open>What \<open>MatchesOrParentMatches\<close> computes for a rule it does not skip.\<close>

definition mopm_rule :: "Pattern \<Rightarrow> string \<Rightarrow> string \<Rightarrow> string list \<Rightarrow> error + bool" where
  "mopm_rule pattern file parentPath parentPathDirs =
     (case Match pattern file of
        Inl e \<Rightarrow> Inl e
      | Inr match \<Rightarrow>
          if \<not> match \<and> parentPath \<noteq> ''.''
          then scanParents pattern parentPathDirs 0 (length parentPathDirs)
          else Inr match)"

fun mopm_loop :: "Pattern list \<Rightarrow> string \<Rightarrow> string \<Rightarrow> string list \<Rightarrow> bool \<Rightarrow> error + bool" where
  "mopm_loop [] file parentPath parentPathDirs matched = Inr matched"
| "mopm_loop (pattern # patterns) file parentPath parentPathDirs matched =
     (if Exclusion pattern \<noteq> matched
      then mopm_loop patterns file parentPath parentPathDirs matched
      else
        (case mopm_rule pattern file parentPath parentPathDirs of
           Inl e \<Rightarrow> Inl e
         | Inr match \<Rightarrow>
             mopm_loop patterns file parentPath parentPathDirs
               (if match then \<not> Exclusion pattern else matched)))"

definition MatchesOrParentMatches :: "Pattern list \<Rightarrow> string \<Rightarrow> error + bool" where
  "MatchesOrParentMatches patterns file0 =
     (let file1 = Clean file0
      in if file1 = ''.'' then Inr False
         else
           (let file = FromSlash file1;
                parentPath = Dir file;
                parentPathDirs = Split parentPath PathSeparator
            in mopm_loop patterns file parentPath parentPathDirs False))"

text \<open>What \<open>MatchesUsingParentResults\<close> computes for a rule it evaluates.\<close>

definition mupr_rule :: "Pattern \<Rightarrow> string \<Rightarrow> bool list \<Rightarrow> error + bool" where
  "mupr_rule pattern file parentMatched =
     (case Match pattern file of
        Inl e \<Rightarrow> Inl e
      | Inr match \<Rightarrow>
          if \<not> match \<and> length parentMatched = 0 then
            (let parentPath = Dir file
             in if parentPath \<noteq> ''.''
                then (let parentPathDirs = Split parentPath PathSeparator
                      in scanParents pattern parentPathDirs 0 (length parentPathDirs))
                else Inr match)
          else Inr match)"

fun mupr_loop :: "Pattern list \<Rightarrow> nat \<Rightarrow> string \<Rightarrow> bool list \<Rightarrow> bool \<Rightarrow> bool list \<Rightarrow> error + bool \<times> bool list" where
  "mupr_loop [] i file parentMatched matched matchInfo = Inr (matched, matchInfo)"
| "mupr_loop (pattern # patterns) i file parentMatched matched matchInfo =
     (let match0 = (if length parentMatched \<noteq> 0 then parentMatched ! i else False)
      in if \<not> match0 then
           (if Exclusion pattern \<noteq> matched
            then mupr_loop patterns (i + 1) file parentMatched matched matchInfo
            else
              (case mupr_rule pattern file parentMatched of
                 Inl e \<Rightarrow> Inl e
               | Inr match \<Rightarrow>
                   mupr_loop patterns (i + 1) file parentMatched
                     (if match then \<not> Exclusion pattern else matched)
                     (matchInfo[i := match])))
         else
           mupr_loop patterns (i + 1) file parentMatched
             (\<not> Exclusion pattern) (matchInfo[i := match0]))"

definition MatchesUsingParentResults :: "Pattern list \<Rightarrow> string \<Rightarrow> bool list \<Rightarrow> error + bool \<times> bool list" where
  "MatchesUsingParentResults patterns file0 parentMatched =
     (if length parentMatched \<noteq> 0 \<and> length parentMatched \<noteq> length patterns
      then Inl ErrWrongParentMatched
      else mupr_loop patterns 0 (FromSlash file0) parentMatched False
             (replicate (length patterns) False))"

subsection \<open>Threading the parent results down a path\<close>



section \<open>Notions used in the statements\<close>

text \<open>
  A stand-in for the library on expressions outside the modelled fragment, for the
  statements that need a closed term.
\<close>

definition unsupported :: "rune list \<Rightarrow> error + Regexp" where
  "unsupported expr = Inl (ErrRegexp ''unsupported'')"

text \<open>The conditions under which no branch of \<open>Pattern.Match\<close> can panic.\<close>

definition match_safe :: "Pattern \<Rightarrow> bool" where
  "match_safe p =
     (case MatchType p of
        PrefixMatch \<Rightarrow> 2 \<le> length (CleanedPattern p)
      | SuffixMatch \<Rightarrow> 2 \<le> length (CleanedPattern p)
      | RegexpMatch \<Rightarrow> Regexp p \<noteq> None
      | _ \<Rightarrow> True)"

definition matches :: "Pattern \<Rightarrow> string \<Rightarrow> bool" where
  "matches p path = (Match p path = Inr True)"



text \<open>The expression \<open>[^/]*$\<close>, parsed.\<close>

definition star_body :: regex where
  "star_body = Cat (Star (Class True [(47, 47)])) (Cat EndText Eps)"

section \<open>Evaluating the compiler and the matchers\<close>

lemma escapeBytes_val: "escapeBytes = [32, 32, 0, 32, 16, 0, 32, 0]"
  by code_simp

lemmas compile_eval = NewPattern_def Let_def Compile_def scan_Init_def runes_def lit_def
  BOM_def RuneError_def shouldEscape_def escapeBytes_val RuneSelf_def pathSeparator_def
  escapedPathSeparator_def PathSeparator_def regexp_Compile_def parse_class_def
  close_frame_def atom_of_def postfix_def isalnum_def

lemmas match_eval = Match_def MatchString_def runes_def cat_def alt_def HasPrefix_def
  HasSuffix_def PathSeparator_def Let_def

lemmas matcher_eval = MatchesOrParentMatches_def MatchesUsingParentResults_def Clean_def
  clean_elem_def FromSlash_def Dir_def mopm_rule_def mupr_rule_def PathSeparator_def Let_def

lemma NewPattern_star:
  "NewPattern other ''*'' =
     Inr \<lparr>MatchType = RegexpMatch, CleanedPattern = ''*'', Dirs = [''*''],
          Regexp = Some (MatchString
            (Cat BeginText (Cat (Star (Class True [(47, 47)])) (Cat EndText Eps)))),
          Exclusion = False\<rparr>"
  by (simp add: compile_eval)

lemma NewPattern_star_go:
  "NewPattern other ''*.go'' =
     Inr \<lparr>MatchType = RegexpMatch, CleanedPattern = ''*.go'', Dirs = [''*.go''],
          Regexp = Some (MatchString
            (Cat BeginText (Cat (Star (Class True [(47, 47)]))
              (Cat (Lit 46) (Cat (Lit 103) (Cat (Lit 111) (Cat EndText Eps))))))),
          Exclusion = False\<rparr>"
  by (simp add: compile_eval)

lemma NewPattern_not_fileutils:
  "NewPattern other ''!fileutils.go'' =
     Inr \<lparr>MatchType = ExactMatch, CleanedPattern = ''fileutils.go'',
          Dirs = [''fileutils.go''], Regexp = None, Exclusion = True\<rparr>"
  by (simp add: compile_eval)

lemma NewPattern_docs:
  "NewPattern other ''docs'' =
     Inr \<lparr>MatchType = ExactMatch, CleanedPattern = ''docs'', Dirs = [''docs''],
          Regexp = None, Exclusion = False\<rparr>"
  by (simp add: compile_eval)





lemma NewPattern_a:
  "NewPattern other ''a'' =
     Inr \<lparr>MatchType = ExactMatch, CleanedPattern = ''a'', Dirs = [''a''],
          Regexp = None, Exclusion = False\<rparr>"
  by (simp add: compile_eval)



lemma NewPattern_a_star_b:
  "NewPattern other ''a*b'' =
     Inr \<lparr>MatchType = RegexpMatch, CleanedPattern = ''a*b'', Dirs = [''a*b''],
          Regexp = Some (MatchString
            (Cat BeginText (Cat (Lit 97) (Cat (Star (Class True [(47, 47)]))
              (Cat (Lit 98) (Cat EndText Eps)))))),
          Exclusion = False\<rparr>"
  by (simp add: compile_eval)

text \<open>
  A pattern that ends in a backslash: the backslash is written to the expression as it
  is, and the \<open>$\<close> appended after the loop follows it.
\<close>

lemma NewPattern_star_backslash:
  "NewPattern other (''*'' @ [CHR 0x5C]) =
     Inr \<lparr>MatchType = RegexpMatch, CleanedPattern = ''*'' @ [CHR 0x5C],
          Dirs = [''*'' @ [CHR 0x5C]],
          Regexp = Some (MatchString
            (Cat BeginText (Cat (Star (Class True [(47, 47)])) (Cat (Lit 36) Eps)))),
          Exclusion = False\<rparr>"
  by (simp add: compile_eval)

text \<open>The bar is not in the bitmap of \<open>shouldEscape\<close>: it reaches the expression unescaped.\<close>

lemma NewPattern_bar:
  "NewPattern other ''a|b*'' =
     Inr \<lparr>MatchType = RegexpMatch, CleanedPattern = ''a|b*'', Dirs = [''a|b*''],
          Regexp = Some (MatchString
            (Alt (Cat BeginText (Cat (Lit 97) Eps))
                 (Cat (Lit 98) (Cat (Star (Class True [(47, 47)])) (Cat EndText Eps))))),
          Exclusion = False\<rparr>"
  by (simp add: compile_eval)

text \<open>A pattern that starts with the byte-order mark, EF BB BF in UTF-8.\<close>

lemma NewPattern_bom:
  "NewPattern other ([CHR 0xEF, CHR 0xBB, CHR 0xBF] @ ''**/x'') =
     Inr \<lparr>MatchType = SuffixMatch, CleanedPattern = [CHR 0xEF, CHR 0xBB, CHR 0xBF] @ ''**/x'',
          Dirs = [[CHR 0xEF, CHR 0xBB, CHR 0xBF] @ ''**'', ''x''],
          Regexp = None, Exclusion = False\<rparr>"
  by (simp add: compile_eval cont_byte_def second_ok_def)

lemma NewPattern_globstar_x:
  "NewPattern other ''**/x'' =
     Inr \<lparr>MatchType = SuffixMatch, CleanedPattern = ''**/x'', Dirs = [''**'', ''x''],
          Regexp = None, Exclusion = False\<rparr>"
  by (simp add: compile_eval)

section \<open>Rules on which Match cannot panic\<close>

lemma safe_Match: "match_safe p \<Longrightarrow> Match p path = Inr (matches p path)"
  unfolding match_safe_def matches_def Match_def Let_def
  by (cases "MatchType p") (auto simp: HasSuffix_def)



section \<open>The fixtures of the full evaluator\<close>

text \<open>
  Claim C1. The later rule wins, and negation depends on the order: with the rules
  \<open>*.go\<close> and \<open>!fileutils.go\<close>, each compiled by \<open>NewPattern\<close>,
  \<open>MatchesOrParentMatches\<close> returns false for the path \<open>fileutils.go\<close> when the rules
  are in this order and true when they are in the other order.
\<close>

theorem order_of_negation:
  "\<exists>p q. NewPattern other ''*.go'' = Inr p \<and> NewPattern other ''!fileutils.go'' = Inr q
     \<and> MatchesOrParentMatches [p, q] ''fileutils.go'' = Inr False
     \<and> MatchesOrParentMatches [q, p] ''fileutils.go'' = Inr True"
  unfolding NewPattern_star_go NewPattern_not_fileutils
  by (simp add: matcher_eval match_eval)



text \<open>
  Claim C8. The classification of the compiler: \<open>*\<close> is a Regexp rule, \<open>abc.def\<close> an
  Exact rule, \<open>dir/**\<close> a Prefix rule, \<open>**/dir\<close> a Suffix rule, and \<open>**/dir2/*\<close> a Regexp
  rule (the leading double star gives Suffix and the later star overrides it).
\<close>

theorem classification_fixtures:
  "fst (Compile other ''*'') = RegexpMatch
   \<and> fst (Compile other ''abc.def'') = ExactMatch
   \<and> fst (Compile other ''dir/**'') = PrefixMatch
   \<and> fst (Compile other ''**/dir'') = SuffixMatch
   \<and> fst (Compile other ''**/dir2/*'') = RegexpMatch"
  by (simp add: compile_eval)


section \<open>The iteration over the rules\<close>

lemma mopm_loop_append:
  "mopm_loop (ps @ qs) file parentPath dirs matched =
     (case mopm_loop ps file parentPath dirs matched of
        Inl e \<Rightarrow> Inl e
      | Inr m \<Rightarrow> mopm_loop qs file parentPath dirs m)"
  by (induction ps arbitrary: matched) (auto split: sum.splits)

text \<open>
  Claim C3, as the code has it. The claim states the skip condition the wrong way round:
  an inclusion rule met while nothing is matched has its exclusion flag equal to the
  running flag, and it is evaluated.
\<close>

theorem skip_when_equal_counterexample:
  "Exclusion (projr (NewPattern unsupported ''docs'')) = False
   \<and> MatchesOrParentMatches [projr (NewPattern unsupported ''docs'')] ''docs'' = Inr True"
  unfolding NewPattern_docs
  by (simp add: matcher_eval match_eval)

text \<open>
  Claim C3, amended. At every position of the iteration, with \<open>matched\<close> the running
  flag the rules before have left: a rule whose exclusion flag differs from \<open>matched\<close>
  is skipped, the result being that of the remaining rules from the same flag, whatever
  the rule's match predicate would return or do; a rule whose exclusion flag equals
  \<open>matched\<close> is evaluated on the file and, failing that, on the parent prefixes, and a
  match sets the flag to the negation of its exclusion flag.
\<close>

theorem skip_condition:
  "mopm_loop before file parentPath dirs matched0 = Inr matched \<Longrightarrow>
     (Exclusion rule \<noteq> matched \<longrightarrow>
        mopm_loop (before @ rule # rest) file parentPath dirs matched0 =
          mopm_loop rest file parentPath dirs matched)
     \<and> (Exclusion rule = matched \<longrightarrow>
        mopm_loop (before @ rule # rest) file parentPath dirs matched0 =
          (case mopm_rule rule file parentPath dirs of
             Inl e \<Rightarrow> Inl e
           | Inr match \<Rightarrow>
               mopm_loop rest file parentPath dirs
                 (if match then \<not> Exclusion rule else matched)))"
  by (simp add: mopm_loop_append)

text \<open>
  At the rules \<open>*.go\<close> and \<open>!fileutils.go\<close>: the second rule is evaluated after the
  first has matched, and skipped at the head of the list. A skipped rule with no
  compiled expression does not panic, an evaluated one does.
\<close>

theorem skip_condition_witness:
  "mopm_loop [projr (NewPattern unsupported ''*.go'')] ''fileutils.go'' ''.'' [''.''] False = Inr True
   \<and> mopm_loop ([projr (NewPattern unsupported ''*.go'')] @
        projr (NewPattern unsupported ''!fileutils.go'') # [])
        ''fileutils.go'' ''.'' [''.''] False = Inr False
   \<and> mopm_loop ([] @ projr (NewPattern unsupported ''!fileutils.go'') #
        [projr (NewPattern unsupported ''*.go'')])
        ''fileutils.go'' ''.'' [''.''] False = Inr True
   \<and> mopm_loop ([] @ \<lparr>MatchType = RegexpMatch, CleanedPattern = ''x'', Dirs = [''x''],
          Regexp = None, Exclusion = True\<rparr> # []) ''x'' ''.'' [''.''] False = Inr False
   \<and> mopm_loop ([] @ \<lparr>MatchType = RegexpMatch, CleanedPattern = ''x'', Dirs = [''x''],
          Regexp = None, Exclusion = False\<rparr> # []) ''x'' ''.'' [''.''] False
        = Inl PanicNilDereference"
proof -
  let ?go = "projr (NewPattern unsupported ''*.go'')"
  let ?fu = "projr (NewPattern unsupported ''!fileutils.go'')"
  let ?skipped = "\<lparr>MatchType = RegexpMatch, CleanedPattern = ''x'', Dirs = [''x''],
          Regexp = None, Exclusion = True\<rparr>"
  let ?evaluated = "\<lparr>MatchType = RegexpMatch, CleanedPattern = ''x'', Dirs = [''x''],
          Regexp = None, Exclusion = False\<rparr>"
  have go: "mopm_loop [?go] ''fileutils.go'' ''.'' [''.''] False = Inr True"
    unfolding NewPattern_star_go by (simp add: matcher_eval match_eval)
  have start: "mopm_loop [] f ''.'' [''.''] False = Inr False" for f
    by simp
  have fu: "Exclusion ?fu = True" "mopm_rule ?fu ''fileutils.go'' ''.'' [''.''] = Inr True"
    unfolding NewPattern_not_fileutils by (simp_all add: matcher_eval match_eval)
  have ev: "mopm_rule ?evaluated ''x'' ''.'' [''.''] = Inl PanicNilDereference"
    by (simp add: matcher_eval match_eval)
  show ?thesis
    using go
      skip_condition [OF go, where rule = ?fu and rest = "[]"]
      skip_condition [OF start [of "''fileutils.go''"], where rule = ?fu and rest = "[?go]"]
      skip_condition [OF start [of "''x''"], where rule = ?skipped and rest = "[]"]
      skip_condition [OF start [of "''x''"], where rule = ?evaluated and rest = "[]"]
      fu ev
    by simp
qed

section \<open>The current directory\<close>

text \<open>
  Claim C6. For every list of rules, \<open>MatchesOrParentMatches\<close> returns false for a path
  that \<open>filepath.Clean\<close> turns into \<open>.\<close>.
\<close>

theorem current_directory_guard:
  "Clean file = ''.'' \<Longrightarrow> MatchesOrParentMatches patterns file = Inr False"
  by (simp add: MatchesOrParentMatches_def)

theorem current_directory_guard_witness:
  "Clean ''docs/..'' = ''.''
   \<and> MatchesOrParentMatches [projr (NewPattern unsupported ''*'')] ''docs/..'' = Inr False"
proof -
  have c: "Clean ''docs/..'' = ''.''"
    by (simp add: matcher_eval)
  show ?thesis
    using c current_directory_guard [OF c, of "[projr (NewPattern unsupported ''*'')]"] by simp
qed

text \<open>
  Claim C9. \<open>MatchesUsingParentResults\<close> has no guard for the current directory and does
  not clean the path: with the rule \<open>*\<close> and no parent results it returns true for the
  path \<open>.\<close>, for which \<open>MatchesOrParentMatches\<close> returns false; and it matches the
  rule \<open>a\<close> against the path \<open>./a\<close> as it is given, which the rule does not match,
  where \<open>MatchesOrParentMatches\<close> matches it against \<open>a\<close>. In general its loop runs
  on the path it is given.
\<close>

theorem incremental_no_guard:
  "(\<exists>p. NewPattern other ''*'' = Inr p
        \<and> MatchesUsingParentResults [p] ''.'' [] = Inr (True, [True])
        \<and> MatchesOrParentMatches [p] ''.'' = Inr False)
   \<and> (\<exists>q. NewPattern other ''a'' = Inr q
        \<and> MatchesUsingParentResults [q] ''./a'' [] = Inr (False, [False])
        \<and> MatchesOrParentMatches [q] ''./a'' = Inr True)
   \<and> MatchesUsingParentResults patterns file parentMatched =
        (if length parentMatched \<noteq> 0 \<and> length parentMatched \<noteq> length patterns
         then Inl ErrWrongParentMatched
         else mupr_loop patterns 0 file parentMatched False (replicate (length patterns) False))"
  unfolding NewPattern_star NewPattern_a
  by (simp add: matcher_eval match_eval)

section \<open>The compiled expressions\<close>

lemma match_here_Fail: "match_here False Fail cs = False"
  by (induction cs) simp_all

lemma star_body_sem: "match_here False star_body cs = (47 \<notin> set cs)"
  by (induction cs) (auto simp: star_body_def cat_def alt_def match_here_Fail)

lemma star_regex_later: "search False (Cat BeginText star_body) cs = False"
  by (induction cs) (auto simp: star_body_def cat_def alt_def match_here_Fail)

lemma star_regex_sem: "search True (Cat BeginText star_body) cs = (47 \<notin> set cs)"
proof (cases cs)
  case Nil
  then show ?thesis by (simp add: star_body_def)
next
  case (Cons c cs')
  have "match_here True (Cat BeginText star_body) (c # cs') = (47 \<notin> set (c # cs'))"
    using star_body_sem [of cs']
    by (auto simp: star_body_def cat_def alt_def match_here_Fail)
  with Cons star_regex_later [of cs'] show ?thesis by simp
qed

text \<open>
  Claim C5, as stated, fails: the fragment written for a single star matches the empty
  string too, and the compiled pattern \<open>a*b\<close> matches the path \<open>ab\<close>.
\<close>

theorem single_star_counterexample:
  "Match (projr (NewPattern unsupported ''a*b'')) ''ab'' = Inr True"
  unfolding NewPattern_a_star_b
  by (simp add: match_eval)

text \<open>
  Claim C5, amended. A star that no second star follows makes the rule a Regexp rule and
  appends the fragment \<open>[^/]*\<close>, which matches zero or more characters other than the
  separator: the compiled pattern \<open>*\<close> matches exactly the paths without a separator,
  the empty path among them, and the compiled pattern \<open>a*b\<close> matches \<open>aXb\<close> and
  \<open>ab\<close> and does not match \<open>a/b\<close>.
\<close>

theorem single_star_zero_or_more:
  "(rest = [] \<or> hd rest \<noteq> rn CHR ''*'' \<longrightarrow>
      compile_loop (rn CHR ''*'' # rest) i regStr matchType =
        compile_loop rest (i + 1) (regStr @ lit ''[^/]*'') RegexpMatch)
   \<and> (\<exists>p. NewPattern other ''*'' = Inr p \<and> MatchType p = RegexpMatch
          \<and> (\<forall>path. Match p path = Inr (rn CHR ''/'' \<notin> set (runes path))))
   \<and> (\<exists>q. NewPattern other ''a*b'' = Inr q \<and> MatchType q = RegexpMatch
          \<and> Match q ''aXb'' = Inr True \<and> Match q ''ab'' = Inr True
          \<and> Match q ''a/b'' = Inr False)"
proof (intro conjI)
  show "rest = [] \<or> hd rest \<noteq> rn CHR ''*'' \<longrightarrow>
      compile_loop (rn CHR ''*'' # rest) i regStr matchType =
        compile_loop rest (i + 1) (regStr @ lit ''[^/]*'') RegexpMatch"
    by (auto simp: lit_def escapedPathSeparator_def pathSeparator_def PathSeparator_def)
  have "Match \<lparr>MatchType = RegexpMatch, CleanedPattern = ''*'', Dirs = [''*''],
          Regexp = Some (MatchString (Cat BeginText star_body)), Exclusion = False\<rparr> path
        = Inr (rn CHR ''/'' \<notin> set (runes path))" for path
    by (simp add: Match_def MatchString_def star_regex_sem)
  then show "\<exists>p. NewPattern other ''*'' = Inr p \<and> MatchType p = RegexpMatch
          \<and> (\<forall>path. Match p path = Inr (rn CHR ''/'' \<notin> set (runes path)))"
    unfolding NewPattern_star star_body_def by simp
  show "\<exists>q. NewPattern other ''a*b'' = Inr q \<and> MatchType q = RegexpMatch
          \<and> Match q ''aXb'' = Inr True \<and> Match q ''ab'' = Inr True
          \<and> Match q ''a/b'' = Inr False"
    unfolding NewPattern_a_star_b by (simp add: match_eval)
qed

theorem single_star_zero_or_more_witness:
  "compile_loop (lit ''*b'') 1 (lit ''^a'') ExactMatch = (lit ''^a[^/]*b'', RegexpMatch)
   \<and> Match (projr (NewPattern unsupported ''*'')) [] = Inr True
   \<and> Match (projr (NewPattern unsupported ''*'')) ''docs'' = Inr True
   \<and> Match (projr (NewPattern unsupported ''*'')) ''docs/a'' = Inr False"
proof -
  have step: "compile_loop (rn CHR ''*'' # lit ''b'') 1 (lit ''^a'') ExactMatch =
        compile_loop (lit ''b'') (1 + 1) (lit ''^a'' @ lit ''[^/]*'') RegexpMatch"
    using single_star_zero_or_more [of "lit ''b''" 1 "lit ''^a''" ExactMatch unsupported]
    by (simp add: lit_def)
  have loop: "compile_loop (lit ''*b'') 1 (lit ''^a'') ExactMatch = (lit ''^a[^/]*b'', RegexpMatch)"
    using step by (simp add: lit_def shouldEscape_def escapeBytes_val RuneSelf_def)
  from single_star_zero_or_more [of "[]" 0 "[]" ExactMatch unsupported]
  obtain p where p: "NewPattern unsupported ''*'' = Inr p"
    and m: "\<And>path. Match p path = Inr (rn CHR ''/'' \<notin> set (runes path))"
    by blast
  from p have "projr (NewPattern unsupported ''*'') = p" by simp
  with m loop show ?thesis by (simp add: runes_def)
qed

text \<open>
  Claim C4, at its failing inputs. The pattern that is a star and a backslash compiles
  to \<open>^[^/]*\<close> followed by an escaped dollar: the expression has no anchor at its end
  and matches a prefix of the path \<open>a$b\<close>. The pattern \<open>a|b*\<close> compiles to an
  alternation, the bar being left unescaped, of which each branch has one anchor only:
  it matches the path \<open>axyz\<close>, of which it matches the first character.
\<close>

theorem regexp_not_anchored:
  "MatchType (projr (NewPattern unsupported (''*'' @ [CHR 0x5C]))) = RegexpMatch
   \<and> Match (projr (NewPattern unsupported (''*'' @ [CHR 0x5C]))) ''a$b'' = Inr True
   \<and> MatchType (projr (NewPattern unsupported ''a|b*'')) = RegexpMatch
   \<and> Match (projr (NewPattern unsupported ''a|b*'')) ''axyz'' = Inr True
   \<and> shouldEscape (rn CHR ''|'') = False"
  unfolding NewPattern_star_backslash NewPattern_bar
  by (simp add: match_eval shouldEscape_def escapeBytes_val RuneSelf_def)

section \<open>Patterns on which Match cannot panic\<close>

lemma decode_bytes_length: "length (decode_bytes bs) \<le> length bs"
proof (induction bs rule: decode_bytes.induct)
  case 1
  then show ?case by simp
next
  case (2 b bs)
  obtain r w where d: "DecodeRune (b # bs) = (r, w)" by (cases "DecodeRune (b # bs)")
  have "length (decode_bytes (drop (w - 1) bs)) \<le> length (drop (w - 1) bs)"
    using "2.IH" [OF d [symmetric]] .
  then show ?case using d by simp
qed

lemma scan_Init_length: "length (scan_Init pattern) \<le> length pattern"
  using decode_bytes_length [of "map of_char pattern"]
  by (auto simp: scan_Init_def runes_def Let_def)

text \<open>The loop ends on Prefix or Suffix only when it has read a double star.\<close>

lemma compile_loop_literal:
  assumes "compile_loop rs i regStr mt = (regStr', mt')"
    and "mt' = PrefixMatch \<or> mt' = SuffixMatch"
  shows "mt = PrefixMatch \<or> mt = SuffixMatch \<or> 2 \<le> length rs"
proof (cases rs)
  case Nil
  with assms show ?thesis by auto
next
  case (Cons ch rest)
  show ?thesis
  proof (cases rest)
    case Nil
    with Cons assms show ?thesis
      by (auto split: if_splits)
  next
    case (Cons c cs)
    with \<open>rs = ch # rest\<close> show ?thesis by simp
  qed
qed

lemma compile_loop_known:
  "mt \<noteq> UnknownMatch \<Longrightarrow> snd (compile_loop rs i regStr mt) \<noteq> UnknownMatch"
proof (induction "length rs" arbitrary: rs i regStr mt rule: less_induct)
  case less
  show ?case
  proof (cases rs)
    case Nil
    with less.prems show ?thesis by simp
  next
    case (Cons ch rest)
    have IH: "length rs' \<le> length rest \<Longrightarrow> m' \<noteq> UnknownMatch \<Longrightarrow>
                snd (compile_loop rs' i' r' m') \<noteq> UnknownMatch" for rs' i' r' m'
      using less.hyps [of rs' m' i' r'] Cons by simp
    from less.prems show ?thesis
      unfolding Cons compile_loop.simps Let_def
      by (auto simp: IH)
  qed
qed

lemma Compile_literal:
  assumes "Compile other pattern = (mt, re, err)"
  shows "(mt = PrefixMatch \<or> mt = SuffixMatch \<longrightarrow> 2 \<le> length pattern)
         \<and> (mt = RegexpMatch \<longrightarrow> re \<noteq> None)
         \<and> (mt = UnknownMatch \<longrightarrow> err \<noteq> None)"
proof -
  obtain regStr mt0 where
    l: "compile_loop (scan_Init pattern) 0 (lit ''^'') ExactMatch = (regStr, mt0)"
    by (cases "compile_loop (scan_Init pattern) 0 (lit ''^'') ExactMatch")
  show ?thesis
  proof (cases "mt0 = RegexpMatch")
    case True
    with assms l show ?thesis
      by (auto simp: Compile_def split: sum.splits)
  next
    case False
    with assms l have mt: "mt = mt0" and "re = None" "err = None"
      by (auto simp: Compile_def)
    have "2 \<le> length pattern" if "mt0 = PrefixMatch \<or> mt0 = SuffixMatch"
      using compile_loop_literal [OF l that] scan_Init_length [of pattern] by auto
    moreover have "mt0 \<noteq> UnknownMatch"
      using compile_loop_known [of ExactMatch "scan_Init pattern" 0 "lit ''^''"] l by simp
    ultimately show ?thesis using mt False by auto
  qed
qed

lemma NewPattern_match_safe:
  assumes "NewPattern other pattern = Inr p"
  shows "match_safe p"
proof -
  let ?pat = "if hd pattern = CHR ''!'' then tl pattern else pattern"
  obtain mt re err where c: "Compile other ?pat = (mt, re, err)"
    by (cases "Compile other ?pat")
  from assms c have p: "MatchType p = mt" "CleanedPattern p = ?pat" "Regexp p = re" "err = None"
    by (auto simp: NewPattern_def Let_def split: if_splits option.splits)
  from Compile_literal [OF c] p show ?thesis
    by (cases mt) (auto simp: match_safe_def)
qed

text \<open>
  \<open>Pattern.Match\<close> returns, with no panic, on every pattern that \<open>NewPattern\<close> has
  built: a Prefix or Suffix rule has a cleaned pattern of two bytes at least, a Regexp
  rule has its compiled expression, and the test of the suffix comes first when the
  suffix is empty.
\<close>

lemma NewPattern_Match_total:
  "NewPattern other pattern = Inr p \<Longrightarrow> \<exists>b. Match p path = Inr b"
  using safe_Match [OF NewPattern_match_safe] by blast

text \<open>
  Claim C10, at its failing input. The scanner of \<open>Compile\<close> skips a byte-order mark
  at the start of the pattern, so that the double star after it is read in the first
  round of the loop and the rule is a Suffix rule; the cleaned pattern keeps the three
  bytes of the mark and does not begin with the double star. \<open>Match\<close> then drops two
  bytes of the mark instead of the stars: the rule does not match the path \<open>x\<close>, which
  the same rule without the mark matches.
\<close>

theorem suffix_after_byte_order_mark:
  "MatchType (projr (NewPattern unsupported ([CHR 0xEF, CHR 0xBB, CHR 0xBF] @ ''**/x''))) = SuffixMatch
   \<and> \<not> HasPrefix (CleanedPattern
          (projr (NewPattern unsupported ([CHR 0xEF, CHR 0xBB, CHR 0xBF] @ ''**/x'')))) ''**''
   \<and> Match (projr (NewPattern unsupported ([CHR 0xEF, CHR 0xBB, CHR 0xBF] @ ''**/x''))) ''x''
        = Inr False
   \<and> Match (projr (NewPattern unsupported ''**/x'')) ''x'' = Inr True"
  unfolding NewPattern_bom NewPattern_globstar_x
  by (simp add: match_eval)

section \<open>The two entry points\<close>




























end
